theory Spec2Isabelle
  imports Complex_Main
begin

section \<open>JavaScript numbers\<close>

text \<open>
  Every quantity of the calculator is a TypeScript \<open>number\<close>. The model keeps the
  special values of IEEE-754 that the source can produce (a division by zero, a
  logarithm of a non-positive number) and computes exactly on finite values:
  rounding, overflow and underflow are not modelled, and the two zeros are
  identified (a division by zero takes the sign of its numerator).
\<close>

datatype jsnum = Num real | PosInf | NegInf | NaN

fun js_neg :: "jsnum \<Rightarrow> jsnum" where
  "js_neg (Num a) = Num (- a)"
| "js_neg PosInf = NegInf"
| "js_neg NegInf = PosInf"
| "js_neg NaN = NaN"

fun js_add :: "jsnum \<Rightarrow> jsnum \<Rightarrow> jsnum" where
  "js_add NaN y = NaN"
| "js_add x NaN = NaN"
| "js_add (Num a) (Num b) = Num (a + b)"
| "js_add PosInf NegInf = NaN"
| "js_add NegInf PosInf = NaN"
| "js_add PosInf y = PosInf"
| "js_add NegInf y = NegInf"
| "js_add (Num a) y = y"

definition js_sub :: "jsnum \<Rightarrow> jsnum \<Rightarrow> jsnum" where
  "js_sub x y = js_add x (js_neg y)"

text \<open>The sign of a value that is not NaN: \<open>-1\<close>, \<open>0\<close> or \<open>1\<close>.\<close>

fun js_sign :: "jsnum \<Rightarrow> int" where
  "js_sign (Num a) = (if a < 0 then - 1 else if a = 0 then 0 else 1)"
| "js_sign PosInf = 1"
| "js_sign NegInf = - 1"
| "js_sign NaN = 0"

definition signed_inf :: "int \<Rightarrow> jsnum" where
  "signed_inf s = (if s < 0 then NegInf else PosInf)"

fun js_mul :: "jsnum \<Rightarrow> jsnum \<Rightarrow> jsnum" where
  "js_mul NaN y = NaN"
| "js_mul x NaN = NaN"
| "js_mul (Num a) (Num b) = Num (a * b)"
| "js_mul x y =
     (if js_sign x = 0 \<or> js_sign y = 0 then NaN
      else signed_inf (js_sign x * js_sign y))"

fun js_div :: "jsnum \<Rightarrow> jsnum \<Rightarrow> jsnum" where
  "js_div NaN y = NaN"
| "js_div x NaN = NaN"
| "js_div (Num a) (Num b) =
     (if b = 0 then (if a = 0 then NaN else signed_inf (js_sign (Num a)))
      else Num (a / b))"
| "js_div (Num a) y = Num 0"
| "js_div x (Num b) = signed_inf (js_sign x * (if b < 0 then - 1 else 1))"
| "js_div x y = NaN"

fun js_lt :: "jsnum \<Rightarrow> jsnum \<Rightarrow> bool" where
  "js_lt NaN y = False"
| "js_lt x NaN = False"
| "js_lt (Num a) (Num b) = (a < b)"
| "js_lt x PosInf = (x \<noteq> PosInf)"
| "js_lt NegInf y = (y \<noteq> NegInf)"
| "js_lt x y = False"

fun js_le :: "jsnum \<Rightarrow> jsnum \<Rightarrow> bool" where
  "js_le NaN y = False"
| "js_le x NaN = False"
| "js_le (Num a) (Num b) = (a \<le> b)"
| "js_le x PosInf = True"
| "js_le NegInf y = True"
| "js_le x y = False"

fun js_abs :: "jsnum \<Rightarrow> jsnum" where
  "js_abs (Num a) = Num \<bar>a\<bar>"
| "js_abs PosInf = PosInf"
| "js_abs NegInf = PosInf"
| "js_abs NaN = NaN"

fun js_floor :: "jsnum \<Rightarrow> jsnum" where
  "js_floor (Num a) = Num (of_int \<lfloor>a\<rfloor>)"
| "js_floor x = x"

fun js_log :: "jsnum \<Rightarrow> jsnum" where
  "js_log (Num a) = (if a < 0 then NaN else if a = 0 then NegInf else Num (ln a))"
| "js_log PosInf = PosInf"
| "js_log NegInf = NaN"
| "js_log NaN = NaN"


section \<open>The depletion solver\<close>

datatype zcd_value = Years jsnum | Infinite

record CalculationResult =
  zcd :: zcd_value
  isInfinite :: bool
  realGrowthRate :: jsnum
  criticalCapital :: "jsnum option"
  spendingRate :: jsnum
  sustainableRate :: jsnum

text \<open>
  \<open>calculateZCD\<close> of \<open>src/app/page.tsx\<close> reads the four inputs from the component
  state and hands a result to \<open>setResult\<close>; the definition returns that result. The
  first version of the page (without the chart) computes the same result. The
  source's \<open>Inf\<close> is written \<open>Infl\<close>.
\<close>

definition realGrowthMultiplier :: "jsnum \<Rightarrow> jsnum \<Rightarrow> jsnum" where
  "realGrowthMultiplier inflation growth =
     (let Infl = js_div inflation (Num 100);
          G = js_div growth (Num 100)
      in js_div (js_add (Num 1) G) (js_add (Num 1) Infl))"

definition finiteZCD :: "jsnum \<Rightarrow> jsnum \<Rightarrow> jsnum \<Rightarrow> jsnum" where
  "finiteZCD A B R =
     (if js_lt (js_abs (js_sub R (Num 1))) (Num (1 / 10000)) then js_floor (js_div A B)
      else
        let K = js_div (js_mul B R) (js_sub R (Num 1))
        in if js_le (js_sub K A) (Num 0) then Num 0
           else js_floor (js_add (Num 1)
                  (js_div (js_log (js_div (js_sub K B) (js_sub K A))) (js_log R))))"

definition calculateZCD :: "jsnum \<Rightarrow> jsnum \<Rightarrow> jsnum \<Rightarrow> jsnum \<Rightarrow> CalculationResult" where
  "calculateZCD startingAmount burn inflation growth =
     (let A = startingAmount;
          B = burn;
          R = realGrowthMultiplier inflation growth;
          spendingRate = js_mul (js_div B A) (Num 100);
          sustainableRate = js_mul (js_div (js_sub R (Num 1)) R) (Num 100)
      in if js_lt (js_div B A) (js_div (js_sub R (Num 1)) R) then
           \<lparr>zcd = Infinite, isInfinite = True,
            realGrowthRate = js_mul (js_sub R (Num 1)) (Num 100),
            criticalCapital = None,
            spendingRate = spendingRate, sustainableRate = sustainableRate\<rparr>
         else
           let N = finiteZCD A B R;
               K = js_div (js_mul B R) (js_sub R (Num 1))
           in \<lparr>zcd = Years N, isInfinite = False,
               realGrowthRate = js_mul (js_sub R (Num 1)) (Num 100),
               criticalCapital = Some K,
               spendingRate = spendingRate, sustainableRate = sustainableRate\<rparr>)"


section \<open>The trajectory projector\<close>

record YearlyData =
  year :: int
  burnRate :: jsnum
  portfolioValue :: jsnum
  netWorth :: jsnum

text \<open>
  The \<open>for\<close> loop of \<open>generateYearlyData\<close> (\<open>src/app/page.tsx\<close>), from the
  iteration \<open>year\<close> on: the list of the records it pushes. The horizon is an integer.
\<close>

function yearlyLoop ::
  "jsnum \<Rightarrow> jsnum \<Rightarrow> int \<Rightarrow> int \<Rightarrow> jsnum \<Rightarrow> jsnum \<Rightarrow> YearlyData list" where
  "yearlyLoop G Infl maxYears y currentPortfolio currentBurn =
     (if y \<le> maxYears then
        if js_le (js_sub currentPortfolio currentBurn) (Num 0) then
          [\<lparr>year = y, burnRate = currentBurn, portfolioValue = Num 0, netWorth = Num 0\<rparr>]
        else
          \<lparr>year = y,
           burnRate = js_mul currentBurn (js_add (Num 1) Infl),
           portfolioValue = js_mul (js_sub currentPortfolio currentBurn) (js_add (Num 1) G),
           netWorth = js_mul (js_sub currentPortfolio currentBurn) (js_add (Num 1) G)\<rparr>
          # yearlyLoop G Infl maxYears (y + 1)
              (js_mul (js_sub currentPortfolio currentBurn) (js_add (Num 1) G))
              (js_mul currentBurn (js_add (Num 1) Infl))
      else [])"
  by pat_completeness auto
termination
  by (relation "measure (\<lambda>(G, Infl, maxYears, y, p, b). nat (maxYears + 1 - y))") auto

definition generateYearlyData ::
  "jsnum \<Rightarrow> jsnum \<Rightarrow> jsnum \<Rightarrow> jsnum \<Rightarrow> int \<Rightarrow> YearlyData list" where
  "generateYearlyData A B G Infl maxYears =
     \<lparr>year = 0, burnRate = B, portfolioValue = A, netWorth = A\<rparr>
     # yearlyLoop G Infl maxYears 1 A B"

section \<open>The page with a contribution phase\<close>

text \<open>
  The later version of the page adds a salary during the working years. Its
  \<open>generateYearlyData\<close> and \<open>calculateZCD\<close> carry the suffix \<open>Salary\<close> here.
\<close>

function yearlyLoopSalary ::
  "jsnum \<Rightarrow> jsnum \<Rightarrow> jsnum \<Rightarrow> int \<Rightarrow> int \<Rightarrow> int \<Rightarrow> jsnum \<Rightarrow> jsnum \<Rightarrow> YearlyData list" where
  "yearlyLoopSalary G Infl salary retirementYears maxYears y currentPortfolio currentBurn =
     (if y \<le> maxYears then
        let p0 = (if y \<le> retirementYears then js_add currentPortfolio salary
                  else currentPortfolio)
        in if js_le (js_sub p0 currentBurn) (Num 0) then
             [\<lparr>year = y, burnRate = currentBurn, portfolioValue = Num 0, netWorth = Num 0\<rparr>]
           else
             \<lparr>year = y,
              burnRate = js_mul currentBurn (js_add (Num 1) Infl),
              portfolioValue = js_mul (js_sub p0 currentBurn) (js_add (Num 1) G),
              netWorth = js_mul (js_sub p0 currentBurn) (js_add (Num 1) G)\<rparr>
             # yearlyLoopSalary G Infl salary retirementYears maxYears (y + 1)
                 (js_mul (js_sub p0 currentBurn) (js_add (Num 1) G))
                 (js_mul currentBurn (js_add (Num 1) Infl))
      else [])"
  by pat_completeness auto
termination
  by (relation "measure (\<lambda>(G, Infl, s, r, maxYears, y, p, b). nat (maxYears + 1 - y))") auto

definition generateYearlyDataSalary ::
  "jsnum \<Rightarrow> jsnum \<Rightarrow> jsnum \<Rightarrow> jsnum \<Rightarrow> jsnum \<Rightarrow> int \<Rightarrow> int \<Rightarrow> YearlyData list" where
  "generateYearlyDataSalary A B G Infl salary retirementYears maxYears =
     \<lparr>year = 0, burnRate = B, portfolioValue = A, netWorth = A\<rparr>
     # yearlyLoopSalary G Infl salary retirementYears maxYears 1 A B"




section \<open>The trajectory in closed terms\<close>

text \<open>
  For finite inputs the state of the projector's loop is a pair of real sequences:
  the burn of year \<open>n + 1\<close> is \<open>B * (1 + Infl) ^ n\<close>, and \<open>capitalAfter n\<close> is the
  portfolio at the end of year \<open>n\<close> as long as no year has run out of money.
  \<open>balance n\<close> is what year \<open>n + 1\<close> leaves after the salary (during the working
  years) and the withdrawal, before growth.
\<close>

fun capitalAfter :: "real \<Rightarrow> real \<Rightarrow> real \<Rightarrow> real \<Rightarrow> real \<Rightarrow> int \<Rightarrow> nat \<Rightarrow> real" where
  "capitalAfter a b g i s r 0 = a"
| "capitalAfter a b g i s r (Suc n) =
     ((if int n + 1 \<le> r then capitalAfter a b g i s r n + s else capitalAfter a b g i s r n)
        - b * (1 + i) ^ n) * (1 + g)"

definition balance :: "real \<Rightarrow> real \<Rightarrow> real \<Rightarrow> real \<Rightarrow> real \<Rightarrow> int \<Rightarrow> nat \<Rightarrow> real" where
  "balance a b g i s r n =
     (if int n + 1 \<le> r then capitalAfter a b g i s r n + s else capitalAfter a b g i s r n)
       - b * (1 + i) ^ n"

definition normalRecord :: "real \<Rightarrow> real \<Rightarrow> real \<Rightarrow> real \<Rightarrow> real \<Rightarrow> int \<Rightarrow> nat \<Rightarrow> YearlyData" where
  "normalRecord a b g i s r n =
     \<lparr>year = int n + 1, burnRate = Num (b * (1 + i) ^ Suc n),
      portfolioValue = Num (capitalAfter a b g i s r (Suc n)),
      netWorth = Num (capitalAfter a b g i s r (Suc n))\<rparr>"

definition terminalRecord :: "real \<Rightarrow> real \<Rightarrow> nat \<Rightarrow> YearlyData" where
  "terminalRecord b i n =
     \<lparr>year = int n + 1, burnRate = Num (b * (1 + i) ^ n),
      portfolioValue = Num 0, netWorth = Num 0\<rparr>"

declare yearlyLoop.simps [simp del] yearlyLoopSalary.simps [simp del]

section \<open>Arithmetic of the number model\<close>

lemma js_sub_Num [simp]: "js_sub (Num a) (Num b) = Num (a - b)"
  by (simp add: js_sub_def)




text \<open>
  The floor of \<open>1 + log a / log r\<close> is read off from two powers of \<open>r\<close> that
  enclose \<open>a\<close>.
\<close>

lemma floor_log_between:
  fixes r a :: real
  assumes r: "1 < r" and a: "0 < a" and lo: "r ^ n \<le> a" and hi: "a < r ^ Suc n"
  shows "\<lfloor>1 + ln a / ln r\<rfloor> = int n + 1"
proof -
  have lr: "0 < ln r" using r by simp
  have rp: "0 < r" using r by simp
  have "ln (r ^ n) \<le> ln a" using lo a rp by simp
  then have 1: "real n * ln r \<le> ln a" by (simp add: ln_realpow rp)
  have "ln a < ln (r ^ Suc n)" using hi a rp by simp
  then have 2: "ln a < (real n + 1) * ln r"
    using ln_realpow [of r "Suc n"] by (simp only: of_nat_Suc add.commute)
  have 3: "real n \<le> ln a / ln r" using 1 lr by (simp add: pos_le_divide_eq)
  have 4: "ln a / ln r < real n + 1" using 2 lr by (simp add: pos_divide_less_eq)
  show ?thesis
    by (rule floor_unique) (use 3 4 in simp_all)
qed

section \<open>The real growth multiplier at the inputs used below\<close>

lemma R_scenario1: "realGrowthMultiplier (Num 3) (Num 7) = Num (107 / 103)"
  by (simp add: realGrowthMultiplier_def Let_def)

lemma R_equal_rates: "i \<noteq> - 100 \<Longrightarrow> realGrowthMultiplier (Num i) (Num i) = Num 1"
  by (simp add: realGrowthMultiplier_def Let_def)

lemma R_double: "realGrowthMultiplier (Num 0) (Num 100) = Num 2"
  by (simp add: realGrowthMultiplier_def Let_def)


lemma finiteZCD_scenario1:
  "finiteZCD (Num 1000000) (Num 50000) (Num (107 / 103)) = Num 36"
proof -
  have "\<lfloor>1 + ln (103 / 27 :: real) / ln (107 / 103)\<rfloor> = int 35 + 1"
    by (rule floor_log_between) (simp_all add: power_divide)
  then show ?thesis
    by (simp add: finiteZCD_def Let_def)
qed

section \<open>Sustainability rates and the classification\<close>




section \<open>The finite branches\<close>





text \<open>
  Claim C6, as the code has it. For a starting amount of 1,000,000, a burn of 50,000,
  inflation 3 percent and growth 7 percent the solver returns a finite result of 36
  years, a spending rate of 5 percent and a sustainable rate of 400/107 (about 3.738)
  percent.
\<close>

theorem scenario1_result:
  "calculateZCD (Num 1000000) (Num 50000) (Num 3) (Num 7) =
   \<lparr>zcd = Years (Num 36), isInfinite = False, realGrowthRate = Num (400 / 103),
    criticalCapital = Some (Num 1337500), spendingRate = Num 5,
    sustainableRate = Num (400 / 107)\<rparr>"
  by (simp add: calculateZCD_def R_scenario1 finiteZCD_scenario1 Let_def)

text \<open>
  Claim C6 states about 25 years for this input; the closed form gives 36, eleven
  years more.
\<close>

theorem scenario1_not_25:
  "zcd (calculateZCD (Num 1000000) (Num 50000) (Num 3) (Num 7)) = Years (Num (25 + 11))
   \<and> zcd (calculateZCD (Num 1000000) (Num 50000) (Num 3) (Num 7)) \<noteq> Years (Num 25)"
  by (simp add: calculateZCD_def R_scenario1 finiteZCD_scenario1 Let_def)

section \<open>A real growth multiplier that is not positive\<close>




section \<open>Monotonicity in the first withdrawal\<close>

text \<open>
  Claim C8 at the boundary of sustainability. With a starting amount of 100, no
  inflation and growth 100 percent (\<open>R = 2\<close>), a burn of 50 is exactly the sustainable
  rate: the test \<open>B / A < (R - 1) / R\<close> is strict, the result is finite, and
  \<open>K - A = 0\<close> gives zero years. A burn of 51 gives 5 years.
\<close>

theorem boundary_withdrawal_not_monotone:
  "zcd (calculateZCD (Num 100) (Num 50) (Num 0) (Num 100)) = Years (Num 0)
   \<and> zcd (calculateZCD (Num 100) (Num 51) (Num 0) (Num 100)) = Years (Num 5)"
proof -
  have "\<lfloor>1 + ln (51 / 2 :: real) / ln 2\<rfloor> = int 4 + 1"
    by (rule floor_log_between) simp_all
  then show ?thesis
    by (simp add: calculateZCD_def finiteZCD_def R_double Let_def)
qed

section \<open>Totality of the solver\<close>



text \<open>
  A number of years need not be finite: with a burn of zero and growth equal to
  inflation the degenerate branch returns \<open>floor(A / 0)\<close>, which is \<open>Infinity\<close>. The
  page then asks the projector for the horizon \<open>N + 5\<close>; the projector above is
  modelled for integer horizons only.
\<close>

lemma zero_burn_years_infinite:
  "zcd (calculateZCD (Num 1000000) (Num 0) (Num 3) (Num 3)) = Years PosInf"
  by (simp add: calculateZCD_def finiteZCD_def R_equal_rates Let_def signed_inf_def)

section \<open>The projector's loop, unrolled\<close>

text \<open>The loop of the first chart is the loop with a salary and no working year left.\<close>

lemma yearlyLoop_as_salary:
  "retirementYears < y \<Longrightarrow>
   yearlyLoopSalary G Infl salary retirementYears maxYears y p c = yearlyLoop G Infl maxYears y p c"
proof (induction G Infl maxYears y p c rule: yearlyLoop.induct)
  case (1 G Infl maxYears y p c)
  show ?case
  proof (cases "y \<le> maxYears \<and> \<not> js_le (js_sub p c) (Num 0)")
    case True
    then have "yearlyLoopSalary G Infl salary retirementYears maxYears (y + 1)
                 (js_mul (js_sub p c) (js_add (Num 1) G)) (js_mul c (js_add (Num 1) Infl))
               = yearlyLoop G Infl maxYears (y + 1)
                 (js_mul (js_sub p c) (js_add (Num 1) G)) (js_mul c (js_add (Num 1) Infl))"
      using "1.IH" "1.prems" by simp
    then show ?thesis
      using True "1.prems"
      by (subst yearlyLoopSalary.simps, subst yearlyLoop.simps) simp
  next
    case False
    then show ?thesis
      using "1.prems"
      by (subst yearlyLoopSalary.simps, subst yearlyLoop.simps) auto
  qed
qed

lemma generateYearlyData_as_salary:
  "generateYearlyData A B G Infl maxYears = generateYearlyDataSalary A B G Infl salary 0 maxYears"
  by (simp add: generateYearlyData_def generateYearlyDataSalary_def yearlyLoop_as_salary)

lemma loop_step_normal:
  assumes "int n + 1 \<le> m" and "0 < balance a b g i s r n"
  shows "yearlyLoopSalary (Num g) (Num i) (Num s) r m (int n + 1)
           (Num (capitalAfter a b g i s r n)) (Num (b * (1 + i) ^ n))
         = normalRecord a b g i s r n
           # yearlyLoopSalary (Num g) (Num i) (Num s) r m (int (Suc n) + 1)
               (Num (capitalAfter a b g i s r (Suc n))) (Num (b * (1 + i) ^ Suc n))"
proof (cases "int n + 1 \<le> r")
  case True
  then show ?thesis
    using assms
    by (subst yearlyLoopSalary.simps)
       (simp add: balance_def normalRecord_def Let_def not_le ac_simps)
next
  case False
  then show ?thesis
    using assms
    by (subst yearlyLoopSalary.simps)
       (simp add: balance_def normalRecord_def Let_def not_le ac_simps)
qed

lemma loop_step_terminal:
  assumes "int n + 1 \<le> m" and "balance a b g i s r n \<le> 0"
  shows "yearlyLoopSalary (Num g) (Num i) (Num s) r m (int n + 1)
           (Num (capitalAfter a b g i s r n)) (Num (b * (1 + i) ^ n))
         = [terminalRecord b i n]"
proof (cases "int n + 1 \<le> r")
  case True
  then show ?thesis
    using assms
    by (subst yearlyLoopSalary.simps) (simp add: balance_def terminalRecord_def Let_def)
next
  case False
  then show ?thesis
    using assms
    by (subst yearlyLoopSalary.simps) (simp add: balance_def terminalRecord_def Let_def)
qed

lemma loop_step_end:
  assumes "\<not> y \<le> m"
  shows "yearlyLoopSalary G Infl salary r m y p c = []"
  using assms by (subst yearlyLoopSalary.simps) simp

lemma loop_unroll:
  assumes "\<forall>j<n. 0 < balance a b g i s r j" and "int n \<le> m"
  shows "yearlyLoopSalary (Num g) (Num i) (Num s) r m 1 (Num a) (Num b)
         = map (normalRecord a b g i s r) [0..<n]
           @ yearlyLoopSalary (Num g) (Num i) (Num s) r m (int n + 1)
               (Num (capitalAfter a b g i s r n)) (Num (b * (1 + i) ^ n))"
  using assms
proof (induction n)
  case 0
  then show ?case by simp
next
  case (Suc n)
  have IH: "yearlyLoopSalary (Num g) (Num i) (Num s) r m 1 (Num a) (Num b)
         = map (normalRecord a b g i s r) [0..<n]
           @ yearlyLoopSalary (Num g) (Num i) (Num s) r m (int n + 1)
               (Num (capitalAfter a b g i s r n)) (Num (b * (1 + i) ^ n))"
    using Suc by simp
  have step: "yearlyLoopSalary (Num g) (Num i) (Num s) r m (int n + 1)
           (Num (capitalAfter a b g i s r n)) (Num (b * (1 + i) ^ n))
         = normalRecord a b g i s r n
           # yearlyLoopSalary (Num g) (Num i) (Num s) r m (int (Suc n) + 1)
               (Num (capitalAfter a b g i s r (Suc n))) (Num (b * (1 + i) ^ Suc n))"
    by (rule loop_step_normal) (use Suc.prems in simp_all)
  show ?case
    unfolding IH step by simp
qed

text \<open>The two shapes of a projection.\<close>

lemma projection_depleted:
  assumes "\<forall>j<d. 0 < balance a b g i s r j" and "balance a b g i s r d \<le> 0"
    and "int d + 1 \<le> m"
  shows "generateYearlyDataSalary (Num a) (Num b) (Num g) (Num i) (Num s) r m
         = \<lparr>year = 0, burnRate = Num b, portfolioValue = Num a, netWorth = Num a\<rparr>
           # map (normalRecord a b g i s r) [0..<d] @ [terminalRecord b i d]"
proof -
  have "int d \<le> m" using assms(3) by simp
  from loop_unroll [OF assms(1) this] loop_step_terminal [OF assms(3) assms(2)]
  show ?thesis
    by (simp add: generateYearlyDataSalary_def)
qed

lemma projection_full:
  assumes "\<forall>j<nat m. 0 < balance a b g i s r j"
  shows "generateYearlyDataSalary (Num a) (Num b) (Num g) (Num i) (Num s) r m
         = \<lparr>year = 0, burnRate = Num b, portfolioValue = Num a, netWorth = Num a\<rparr>
           # map (normalRecord a b g i s r) [0..<nat m]"
proof (cases "0 \<le> m")
  case True
  then have "int (nat m) \<le> m" by simp
  from loop_unroll [OF assms this] loop_step_end [of "int (nat m) + 1" m]
  show ?thesis using True
    by (simp add: generateYearlyDataSalary_def)
next
  case False
  then show ?thesis
    using loop_step_end [of 1 m]
    by (simp add: generateYearlyDataSalary_def)
qed

lemma projection_cases:
  obtains (depleted) d where "\<forall>j<d. 0 < balance a b g i s r j" and "balance a b g i s r d \<le> 0"
      and "int d + 1 \<le> m"
  | (full) "\<forall>j<nat m. 0 < balance a b g i s r j"
proof (cases "\<forall>j<nat m. 0 < balance a b g i s r j")
  case True
  then show ?thesis by (rule full)
next
  case False
  then have ex: "\<exists>j. j < nat m \<and> balance a b g i s r j \<le> 0"
    by (auto simp: not_less)
  define d where "d = (LEAST j. j < nat m \<and> balance a b g i s r j \<le> 0)"
  have d: "d < nat m \<and> balance a b g i s r d \<le> 0"
    unfolding d_def using ex by (rule LeastI_ex)
  have least: "\<forall>j<d. 0 < balance a b g i s r j"
  proof (intro allI impI)
    fix j assume "j < d"
    then have "\<not> (j < nat m \<and> balance a b g i s r j \<le> 0)"
      unfolding d_def by (rule not_less_Least)
    moreover have "j < nat m" using \<open>j < d\<close> d by simp
    ultimately show "0 < balance a b g i s r j" by simp
  qed
  show ?thesis
    by (rule depleted [OF least]) (use d in auto)
qed


lemma shape_nth:
  assumes "k \<le> n"
  shows "(\<lparr>year = 0, burnRate = Num b, portfolioValue = Num a, netWorth = Num a\<rparr>
           # map (normalRecord a b g i s r) [0..<n] @ rest) ! k
         = \<lparr>year = int k, burnRate = Num (b * (1 + i) ^ k),
            portfolioValue = Num (capitalAfter a b g i s r k),
            netWorth = Num (capitalAfter a b g i s r k)\<rparr>"
proof (cases k)
  case 0
  then show ?thesis by simp
next
  case (Suc j)
  then have "j < n" using assms by simp
  then show ?thesis
    using Suc by (simp add: nth_append normalRecord_def)
qed


text \<open>What the records of a projection with finite inputs look like, index by index.\<close>

lemma projection_records:
  fixes a b g i s :: real and r m :: int
  defines "data \<equiv> generateYearlyDataSalary (Num a) (Num b) (Num g) (Num i) (Num s) r m"
  obtains n where "\<forall>j<n. 0 < balance a b g i s r j"
    and "\<forall>k\<le>n. data ! k = \<lparr>year = int k, burnRate = Num (b * (1 + i) ^ k),
            portfolioValue = Num (capitalAfter a b g i s r k),
            netWorth = Num (capitalAfter a b g i s r k)\<rparr>"
    and "(length data = n + 1 \<and> n = nat m)
         \<or> (length data = n + 2 \<and> balance a b g i s r n \<le> 0 \<and> data ! Suc n = terminalRecord b i n)"
proof (cases rule: projection_cases [of a b g i s r m])
  case (depleted d)
  have eq: "data = \<lparr>year = 0, burnRate = Num b, portfolioValue = Num a, netWorth = Num a\<rparr>
           # map (normalRecord a b g i s r) [0..<d] @ [terminalRecord b i d]"
    unfolding data_def using depleted by (rule projection_depleted)
  show ?thesis
  proof (rule that [of d])
    show "\<forall>j<d. 0 < balance a b g i s r j" by (rule depleted(1))
    show "\<forall>k\<le>d. data ! k = \<lparr>year = int k, burnRate = Num (b * (1 + i) ^ k),
            portfolioValue = Num (capitalAfter a b g i s r k),
            netWorth = Num (capitalAfter a b g i s r k)\<rparr>"
      unfolding eq by (intro allI impI shape_nth)
    show "(length data = d + 1 \<and> d = nat m)
         \<or> (length data = d + 2 \<and> balance a b g i s r d \<le> 0 \<and> data ! Suc d = terminalRecord b i d)"
      unfolding eq using depleted(2) by (simp add: nth_append)
  qed
next
  case full
  have eq: "data = \<lparr>year = 0, burnRate = Num b, portfolioValue = Num a, netWorth = Num a\<rparr>
           # map (normalRecord a b g i s r) [0..<nat m] @ []"
    unfolding data_def using projection_full [OF full] by simp
  show ?thesis
  proof (rule that [of "nat m"])
    show "\<forall>j<nat m. 0 < balance a b g i s r j" by (rule full)
    show "\<forall>k\<le>nat m. data ! k = \<lparr>year = int k, burnRate = Num (b * (1 + i) ^ k),
            portfolioValue = Num (capitalAfter a b g i s r k),
            netWorth = Num (capitalAfter a b g i s r k)\<rparr>"
      unfolding eq by (intro allI impI shape_nth)
    show "(length data = nat m + 1 \<and> nat m = nat m)
         \<or> (length data = nat m + 2 \<and> balance a b g i s r (nat m) \<le> 0
              \<and> data ! Suc (nat m) = terminalRecord b i (nat m))"
      unfolding eq by simp
  qed
qed


text \<open>
  A list of records is a projection of the page with a salary, or of the page
  without one, where no year is a working year.
\<close>

lemma either_page:
  assumes "data = generateYearlyDataSalary (Num a) (Num b) (Num g) (Num i) (Num s) r m
           \<or> (r = 0 \<and> data = generateYearlyData (Num a) (Num b) (Num g) (Num i) m)"
  shows "data = generateYearlyDataSalary (Num a) (Num b) (Num g) (Num i) (Num s) r m"
  using assms generateYearlyData_as_salary [of "Num a" "Num b" "Num g" "Num i" m "Num s"]
  by auto

section \<open>Invariants of a projection\<close>






section \<open>The burn rate of a record\<close>

text \<open>
  Claim C5, as the code has it. For finite inputs and a growth rate other than \<open>-100\<close>
  percent, in the projection of either page: the record of year \<open>k\<close> stores the burn
  rate \<open>B * (1 + Infl) ^ k\<close>, one inflation step above the \<open>B * (1 + Infl) ^ (k - 1)\<close>
  that was withdrawn in year \<open>k\<close> (the second part: the value of that record is the
  previous value, plus the salary in a working year, minus \<open>B * (1 + Infl) ^ (k - 1)\<close>,
  grown by \<open>1 + g\<close>). Only the depletion record, whose value is zero, stores the
  amount withdrawn in its own year.
\<close>

theorem burn_rate_recorded:
  fixes a b g i s :: real and r m :: int
  assumes "1 + g \<noteq> 0"
    and "data = generateYearlyDataSalary (Num a) (Num b) (Num g) (Num i) (Num s) r m
         \<or> (r = 0 \<and> data = generateYearlyData (Num a) (Num b) (Num g) (Num i) m)"
    and "k < length data"
  shows "burnRate (data ! k)
           = Num (b * (1 + i) ^ (if 1 \<le> k \<and> portfolioValue (data ! k) = Num 0 then k - 1 else k))
    \<and> (1 \<le> k \<longrightarrow> portfolioValue (data ! k) \<noteq> Num 0 \<longrightarrow>
         portfolioValue (data ! k)
           = js_mul (js_sub (if int k \<le> r then js_add (portfolioValue (data ! (k - 1))) (Num s)
                             else portfolioValue (data ! (k - 1)))
                            (Num (b * (1 + i) ^ (k - 1))))
                    (Num (1 + g)))"
proof -
  have data: "data = generateYearlyDataSalary (Num a) (Num b) (Num g) (Num i) (Num s) r m"
    using assms(2) by (rule either_page)
  obtain n where pos: "\<forall>j<n. 0 < balance a b g i s r j"
    and rec: "\<forall>k\<le>n. data ! k = \<lparr>year = int k, burnRate = Num (b * (1 + i) ^ k),
            portfolioValue = Num (capitalAfter a b g i s r k),
            netWorth = Num (capitalAfter a b g i s r k)\<rparr>"
    and len: "(length data = n + 1 \<and> n = nat m)
         \<or> (length data = n + 2 \<and> balance a b g i s r n \<le> 0
              \<and> data ! Suc n = terminalRecord b i n)"
    unfolding data by (rule projection_records)
  show ?thesis
  proof (cases "k \<le> n")
    case True
    show ?thesis
    proof (cases k)
      case 0
      then show ?thesis using rec by simp
    next
      case (Suc j)
      then have jn: "j < n" using True by simp
      then have "0 < balance a b g i s r j" using pos by simp
      then have nz: "capitalAfter a b g i s r (Suc j) \<noteq> 0"
        using assms(1) by (simp add: balance_def)
      have k: "data ! Suc j = \<lparr>year = int (Suc j), burnRate = Num (b * (1 + i) ^ Suc j),
            portfolioValue = Num (capitalAfter a b g i s r (Suc j)),
            netWorth = Num (capitalAfter a b g i s r (Suc j))\<rparr>"
        using rec True Suc by blast
      have j: "data ! j = \<lparr>year = int j, burnRate = Num (b * (1 + i) ^ j),
            portfolioValue = Num (capitalAfter a b g i s r j),
            netWorth = Num (capitalAfter a b g i s r j)\<rparr>"
        using rec jn by simp
      have first: "burnRate (data ! Suc j)
           = Num (b * (1 + i) ^ (if 1 \<le> Suc j \<and> portfolioValue (data ! Suc j) = Num 0
                                 then Suc j - 1 else Suc j))"
        unfolding k using nz by (simp del: capitalAfter.simps)
      have second: "portfolioValue (data ! Suc j)
           = js_mul (js_sub (if int (Suc j) \<le> r then js_add (portfolioValue (data ! (Suc j - 1))) (Num s)
                             else portfolioValue (data ! (Suc j - 1)))
                            (Num (b * (1 + i) ^ (Suc j - 1))))
                    (Num (1 + g))"
        unfolding k by (simp add: j add.commute)
      show ?thesis
        unfolding Suc using first second by blast
    qed
  next
    case False
    then have "k = Suc n" and "data ! Suc n = terminalRecord b i n"
      using assms(3) len by auto
    then show ?thesis by (simp add: terminalRecord_def)
  qed
qed

theorem burn_rate_recorded_witness:
  "1 + (0::real) \<noteq> 0
   \<and> burnRate (generateYearlyData (Num 100) (Num 60) (Num 0) (Num (1 / 2)) 5 ! 1) = Num 90
   \<and> burnRate (generateYearlyData (Num 100) (Num 60) (Num 0) (Num (1 / 2)) 5 ! 2) = Num 90
   \<and> portfolioValue (generateYearlyData (Num 100) (Num 60) (Num 0) (Num (1 / 2)) 5 ! 1) = Num 40"
  using burn_rate_recorded
      [where data = "generateYearlyData (Num 100) (Num 60) (Num 0) (Num (1 / 2)) 5"
         and a = 100 and b = 60 and g = 0 and i = "1 / 2" and s = 0 and r = 0 and m = 5 and k = 1]
    burn_rate_recorded
      [where data = "generateYearlyData (Num 100) (Num 60) (Num 0) (Num (1 / 2)) 5"
         and a = 100 and b = 60 and g = 0 and i = "1 / 2" and s = 0 and r = 0 and m = 5 and k = 2]
  by (simp add: generateYearlyData_def yearlyLoop.simps)

text \<open>
  Claim C5 fails: with a burn of 100 and inflation 50 percent, year 1 takes 100 from
  1000 and its record stores 150; year 2 takes 150 and its record stores 225.
\<close>

theorem burn_rate_is_bumped:
  "generateYearlyData (Num 1000) (Num 100) (Num 0) (Num (1 / 2)) 2 =
     [\<lparr>year = 0, burnRate = Num 100, portfolioValue = Num 1000, netWorth = Num 1000\<rparr>,
      \<lparr>year = 1, burnRate = Num 150, portfolioValue = Num 900, netWorth = Num 900\<rparr>,
      \<lparr>year = 2, burnRate = Num 225, portfolioValue = Num 750, netWorth = Num 750\<rparr>]"
  by (simp add: generateYearlyData_def yearlyLoop.simps)


section \<open>The solver against the projector\<close>

















end
